theory Spec2Isabelle
  imports Complex_Main "HOL-Library.Multiset" "HOL-Library.AList" "HOL-Library.Word"
begin

section \<open>Data model of the training script\<close>

text \<open>
  Dates are calendar days (\<open>dates_from_strings\<close> parses \<open>%Y-%m-%d\<close>), counted as
  days since 1970-01-01. \<open>MMM-YY\<close> and \<open>Dateofjoining\<close> are \<open>datetime64\<close> columns
  without missing values, as in the data model, and all dates lie within the range of
  pandas' \<open>Timestamp\<close>, where differences of dates do not overflow.

  An entry of the column \<open>LastWorkingDate\<close> is a date of a \<open>datetime64\<close> column, or a
  Python integer of nanoseconds since 1970-01-01 in an \<open>object\<close> column, which is what
  \<open>np.where\<close> makes of a date, or null: \<open>NaT\<close> and \<open>None\<close>, which the script does not
  tell apart (\<open>pd.isnull\<close>, \<open>Series.isnull\<close>, and a comparison that is false for both).

  \<open>Salary\<close> and \<open>Total Business Value\<close> are \<open>int64\<close> columns: subtraction and sum wrap
  around. The results of true division are exact rationals: rounding of binary floating
  point is not modelled, the non-finite results of a division by zero are.
\<close>

type_synonym day = int
type_synonym emp_id = int
type_synonym int64 = "64 word"

datatype date_cell = Date day | Nanos int | Null

record raw_record =
  Emp_ID :: emp_id
  MMM_YY :: day
  Dateofjoining :: day
  LastWorkingDate :: date_cell
  Salary :: int64
  Total_Business_Value :: int64

type_synonym table = "raw_record list"

datatype fval = Finite rat | PInf | NInf | NaN

datatype cell = CInt int | CNum fval | CBool bool

datatype error = KeyError | IndexError | ValueError | TypeError

text \<open>An aggregated table: column labels, and rows labelled by the index.\<close>

record frame =
  cols :: "string list"
  rows :: "(emp_id \<times> (string \<times> cell) list) list"

section \<open>numpy and pandas primitives\<close>

text \<open>\<open>Series.unique\<close>: the distinct values in order of first appearance.\<close>

definition unique :: "'a list \<Rightarrow> 'a list" where
  "unique xs = rev (remdups (rev xs))"

text \<open>
  \<open>column >= end_date\<close> for one entry: a null compares false, and a Python integer
  cannot be compared with a date, which raises \<open>TypeError\<close>.
\<close>

definition ge_date :: "date_cell \<Rightarrow> day \<Rightarrow> error + bool" where
  "ge_date c end_date =
     (case c of Date d \<Rightarrow> Inr (end_date \<le> d) | Null \<Rightarrow> Inr False | Nanos n \<Rightarrow> Inl TypeError)"

fun column_ge :: "date_cell list \<Rightarrow> day \<Rightarrow> error + bool list" where
  "column_ge [] end_date = Inr []"
| "column_ge (c # cs) end_date =
     (case ge_date c end_date of
        Inl e \<Rightarrow> Inl e
      | Inr b \<Rightarrow> (case column_ge cs end_date of Inl e \<Rightarrow> Inl e | Inr bs \<Rightarrow> Inr (b # bs)))"

text \<open>
  The entries of a date column as Python objects, as numpy converts them when an array
  of dates meets \<open>pd.NaT\<close> in \<open>np.where\<close>: a date becomes its integer of nanoseconds.
\<close>

definition ns_per_day :: int where
  "ns_per_day = 86400000000000"

definition as_object :: "date_cell \<Rightarrow> date_cell" where
  "as_object c = (case c of Date d \<Rightarrow> Nanos (d * ns_per_day) | Nanos n \<Rightarrow> Nanos n | Null \<Rightarrow> Null)"

text \<open>\<open>pd.Timestamp(x).value\<close>: the nanoseconds of a date or of an integer, nothing for a null.\<close>

definition timestamp_ns :: "date_cell \<Rightarrow> int option" where
  "timestamp_ns c = (case c of Date d \<Rightarrow> Some (d * ns_per_day) | Nanos n \<Rightarrow> Some n | Null \<Rightarrow> None)"

text \<open>Order, maximum and minimum of \<open>int64\<close> values are those of the signed values.\<close>

definition smax :: "int64 \<Rightarrow> int64 \<Rightarrow> int64" where
  "smax a b = (if sint a \<le> sint b then b else a)"

definition smin :: "int64 \<Rightarrow> int64 \<Rightarrow> int64" where
  "smin a b = (if sint a \<le> sint b then a else b)"

text \<open>\<open>Series.max\<close> and \<open>Series.min\<close> of an \<open>int64\<close> column: nothing (\<open>nan\<close>) for an empty one.\<close>

definition series_max :: "int64 list \<Rightarrow> int64 option" where
  "series_max xs = (case xs of [] \<Rightarrow> None | x # ys \<Rightarrow> Some (fold smax ys x))"

definition series_min :: "int64 list \<Rightarrow> int64 option" where
  "series_min xs = (case xs of [] \<Rightarrow> None | x # ys \<Rightarrow> Some (fold smin ys x))"

text \<open>\<open>Series.sum\<close> of an \<open>int64\<close> column is an \<open>int64\<close>: the sum wraps around.\<close>

definition series_sum :: "int64 list \<Rightarrow> int64" where
  "series_sum xs = sum_list xs"

text \<open>Floating-point addition and division with the non-finite values.\<close>

fun fadd :: "fval \<Rightarrow> fval \<Rightarrow> fval" where
  "fadd (Finite a) (Finite b) = Finite (a + b)"
| "fadd NaN _ = NaN"
| "fadd _ NaN = NaN"
| "fadd PInf NInf = NaN"
| "fadd NInf PInf = NaN"
| "fadd PInf _ = PInf"
| "fadd _ PInf = PInf"
| "fadd NInf _ = NInf"
| "fadd _ NInf = NInf"

fun fdiv :: "fval \<Rightarrow> fval \<Rightarrow> fval" where
  "fdiv (Finite a) (Finite b) =
     (if b = 0 then (if a = 0 then NaN else if 0 < a then PInf else NInf)
      else Finite (a / b))"
| "fdiv NaN _ = NaN"
| "fdiv _ NaN = NaN"
| "fdiv (Finite a) _ = Finite 0"
| "fdiv PInf (Finite b) = (if 0 \<le> b then PInf else NInf)"
| "fdiv NInf (Finite b) = (if 0 \<le> b then NInf else PInf)"
| "fdiv _ _ = NaN"

text \<open>True division of two \<open>int64\<close> values: a zero divisor gives \<open>nan\<close> or \<open>inf\<close>, no exception.\<close>

definition true_divide :: "int64 \<Rightarrow> int64 \<Rightarrow> fval" where
  "true_divide a b = fdiv (Finite (of_int (sint a))) (Finite (of_int (sint b)))"

text \<open>\<open>Series.max\<close> of a date column: \<open>NaT\<close> for an empty column.\<close>

definition date_max :: "day list \<Rightarrow> day option" where
  "date_max xs = (case xs of [] \<Rightarrow> None | x # ys \<Rightarrow> Some (fold max ys x))"

text \<open>\<open>Series.mean\<close> skips \<open>nan\<close> entries; with none left the mean is \<open>nan\<close>.\<close>

definition series_mean :: "fval list \<Rightarrow> fval" where
  "series_mean xs =
     (let ys = filter (\<lambda>v. v \<noteq> NaN) xs
      in if ys = [] then NaN else fdiv (fold fadd ys (Finite 0)) (Finite (of_nat (length ys))))"

text \<open>
  \<open>math.ceil(delta / np.timedelta64(1, 'M'))\<close> for a difference of \<open>delta\<close> nanoseconds:
  pandas takes the month unit as a twelfth of 365.2425 days, 2629746 seconds.
\<close>

definition ceil_months_ns :: "int \<Rightarrow> int" where
  "ceil_months_ns delta = - ((- delta) div 2629746000000000)"


text \<open>\<open>DataFrame.from_dict(..., orient='index')\<close> of a dictionary of dictionaries, both
  kept in insertion order: the columns are the inner keys in order of first appearance,
  a key missing from a row reads \<open>nan\<close>.\<close>

definition from_dict :: "(emp_id \<times> (string \<times> cell) list) list \<Rightarrow> frame" where
  "from_dict d =
     (let cs = unique (concat (map (\<lambda>kv. map fst (snd kv)) d))
      in \<lparr>cols = cs,
          rows = map (\<lambda>kv. (fst kv,
                   map (\<lambda>c. (c, case map_of (snd kv) c of None \<Rightarrow> CNum NaN | Some v \<Rightarrow> v)) cs)) d\<rparr>)"

text \<open>\<open>df.drop(c, axis=1)\<close> and \<open>df[c]\<close>: a missing label raises \<open>KeyError\<close>.\<close>

definition drop_col :: "frame \<Rightarrow> string \<Rightarrow> error + frame" where
  "drop_col f c =
     (if c \<in> set (cols f)
      then Inr \<lparr>cols = filter (\<lambda>k. k \<noteq> c) (cols f),
                rows = map (\<lambda>ir. (fst ir, filter (\<lambda>kv. fst kv \<noteq> c) (snd ir))) (rows f)\<rparr>
      else Inl KeyError)"

definition get_col :: "frame \<Rightarrow> string \<Rightarrow> error + (emp_id \<times> cell) list" where
  "get_col f c =
     (if c \<in> set (cols f)
      then Inr (map (\<lambda>ir. (fst ir, case map_of (snd ir) c of None \<Rightarrow> CNum NaN | Some v \<Rightarrow> v)) (rows f))
      else Inl KeyError)"

section \<open>The functions of the script\<close>

text \<open>\<open>split_train_test_emps\<close>: the test identifiers are fetched over the network, here a
  parameter. The function is applied to the raw table and to the aggregated one, so it
  is stated for any row type with its \<open>Emp_ID\<close> reader.\<close>

definition split_train_test_emps :: "('r \<Rightarrow> 'i) \<Rightarrow> 'r list \<Rightarrow> 'i list \<Rightarrow> 'r list \<times> 'r list" where
  "split_train_test_emps emp df id_list =
     (let for_test = map (\<lambda>r. emp r \<in> set id_list) df
      in (map fst (filter (\<lambda>rb. \<not> snd rb) (zip df for_test)),
          map fst (filter (\<lambda>rb. snd rb) (zip df for_test))))"

text \<open>
  \<open>filter_data\<close>: boolean indexing; the comparison of the column \<open>LastWorkingDate\<close> with
  \<open>end_date\<close>, which may raise; the array of \<open>np.where\<close>, an array of objects with
  \<open>pd.NaT\<close> where the comparison is true and the converted entry where it is false; and
  the assignment of that array to the column.
\<close>

definition select_rows :: "table \<Rightarrow> day \<Rightarrow> table" where
  "select_rows df end_date = filter (\<lambda>r. MMM_YY r \<le> end_date \<and> Dateofjoining r < end_date) df"

definition np_where :: "bool list \<Rightarrow> date_cell \<Rightarrow> date_cell list \<Rightarrow> date_cell list" where
  "np_where cond x col = map (\<lambda>bc. if fst bc then x else as_object (snd bc)) (zip cond col)"

definition set_LastWorkingDate :: "table \<Rightarrow> date_cell list \<Rightarrow> table" where
  "set_LastWorkingDate df col = map (\<lambda>rv. (fst rv)\<lparr>LastWorkingDate := snd rv\<rparr>) (zip df col)"

definition filter_data :: "table \<Rightarrow> day \<Rightarrow> error + table" where
  "filter_data df end_date =
     (let df1 = select_rows df end_date
      in case column_ge (map LastWorkingDate df1) end_date of
           Inl e \<Rightarrow> Inl e
         | Inr cond \<Rightarrow> Inr (set_LastWorkingDate df1 (np_where cond Null (map LastWorkingDate df1))))"

text \<open>
  The same function on a store of table objects, an address being a position in the
  store: boolean indexing and \<open>copy\<close> each allocate a new object, the local name \<open>df\<close>
  is rebound to the copy, and the column assignment updates the copy in place. When the
  comparison raises, the two objects are allocated and nothing is assigned.
\<close>

type_synonym store = "table list"

definition alloc :: "store \<Rightarrow> table \<Rightarrow> nat \<times> store" where
  "alloc h t = (length h, h @ [t])"

definition filter_data_store :: "store \<Rightarrow> nat \<Rightarrow> day \<Rightarrow> ((error + nat) \<times> store) option" where
  "filter_data_store h df end_date =
     (if df < length h
      then (let (a1, h1) = alloc h (select_rows (h ! df) end_date);
                (a2, h2) = alloc h1 (h1 ! a1)
            in case column_ge (map LastWorkingDate (h2 ! a2)) end_date of
                 Inl e \<Rightarrow> Some (Inl e, h2)
               | Inr cond \<Rightarrow>
                  Some (Inr a2,
                        h2[a2 := set_LastWorkingDate (h2 ! a2)
                                   (np_where cond Null (map LastWorkingDate (h2 ! a2)))]))
      else None)"

text \<open>The body of the loop of \<open>generate_emp_samples\<close> for one employee's records.\<close>

definition employee_features_of :: "day option \<Rightarrow> table \<Rightarrow> error + (emp_id \<times> (string \<times> cell) list)" where
  "employee_features_of max_date employee_df =
     (case employee_df of
        [] \<Rightarrow> Inl IndexError
      | r0 # _ \<Rightarrow>
         (let i = Emp_ID r0;
              salary = map Salary employee_df;
              f1 = [(''Emp_ID'', CInt i)];
              f2 = AList.update ''Salary Change''
                     (CNum (case (series_max salary, series_min salary) of
                              (Some mx, Some mn) \<Rightarrow> true_divide (mx - mn) mn
                            | _ \<Rightarrow> NaN)) f1;
              f3 = AList.update ''Total Business Value All''
                     (CInt (sint (series_sum (map Total_Business_Value employee_df)))) f2;
              f4 = AList.update ''Overvalue''
                     (CNum (series_mean (map (\<lambda>r. true_divide (Total_Business_Value r) (Salary r))
                        employee_df))) f3;
              last_day = timestamp_ns (LastWorkingDate (last employee_df));
              last_working_day =
                (case last_day of
                   None \<Rightarrow> (case max_date of None \<Rightarrow> None | Some m \<Rightarrow> Some (m * ns_per_day))
                 | Some w \<Rightarrow> Some w)
          in case filter (\<lambda>r. Emp_ID r = i) employee_df of
               [] \<Rightarrow> Inl IndexError
             | j # _ \<Rightarrow>
                (case last_working_day of
                   None \<Rightarrow> Inl ValueError
                 | Some w \<Rightarrow>
                    (let f5 = AList.update ''Work Experience''
                                (CInt (ceil_months_ns (w - Dateofjoining j * ns_per_day))) f4;
                         f6 = AList.update ''Fired''
                                (CBool (\<not> list_all (\<lambda>r. LastWorkingDate r = Null) employee_df)) f5
                     in Inr (i, f6)))))"

fun employee_loop ::
  "day option \<Rightarrow> table list \<Rightarrow> (emp_id \<times> (string \<times> cell) list) list
     \<Rightarrow> error + (emp_id \<times> (string \<times> cell) list) list" where
  "employee_loop max_date [] employee_features = Inr employee_features"
| "employee_loop max_date (employee_df # rest) employee_features =
     (case employee_features_of max_date employee_df of
        Inl e \<Rightarrow> Inl e
      | Inr kv \<Rightarrow> employee_loop max_date rest (AList.update (fst kv) (snd kv) employee_features))"

definition generate_emp_samples :: "table \<Rightarrow> error + frame" where
  "generate_emp_samples df =
     (let ids = unique (map Emp_ID df);
          max_date = date_max (map MMM_YY df);
          employee_dfs = map (\<lambda>i. filter (\<lambda>r. Emp_ID r = i) df) ids
      in case employee_loop max_date employee_dfs [] of
           Inl e \<Rightarrow> Inl e
         | Inr employee_features \<Rightarrow> Inr (from_dict employee_features))"

section \<open>The training loop of main\<close>

text \<open>\<open>df.loc[i, c]\<close> of an aggregated table.\<close>

definition frame_cell :: "frame \<Rightarrow> emp_id \<Rightarrow> string \<Rightarrow> cell option" where
  "frame_cell f i c = (case map_of (rows f) i of None \<Rightarrow> None | Some r \<Rightarrow> map_of r c)"

text \<open>\<open>split_train_test_emps\<close> on an aggregated table: \<open>df['Emp_ID']\<close> raises \<open>KeyError\<close>
  when the table has no such column.\<close>

definition split_train_test_emps_frame :: "frame \<Rightarrow> emp_id list \<Rightarrow> error + frame \<times> frame" where
  "split_train_test_emps_frame df id_list =
     (if ''Emp_ID'' \<in> set (cols df)
      then (let p = split_train_test_emps
                      (\<lambda>ir. case map_of (snd ir) ''Emp_ID'' of None \<Rightarrow> CNum NaN | Some v \<Rightarrow> v)
                      (rows df) (map CInt id_list)
            in Inr (df\<lparr>rows := fst p\<rparr>, df\<lparr>rows := snd p\<rparr>))
      else Inl KeyError)"

text \<open>
  One iteration of the loop up to the call of \<open>train_test_split\<close>: the label vector
  \<open>y\<close> and the matrix \<open>X\<close>. The split selects rows of \<open>X\<close> and \<open>y\<close>; the classifier is
  fitted on the selected rows with the columns of \<open>X\<close>.
\<close>

definition training_step :: "table \<Rightarrow> day \<Rightarrow> error + frame \<times> (emp_id \<times> cell) list" where
  "training_step full_train_data date =
     (case filter_data full_train_data date of
        Inl e \<Rightarrow> Inl e
      | Inr data_before \<Rightarrow>
         (case generate_emp_samples data_before of
            Inl e \<Rightarrow> Inl e
          | Inr emp_df \<Rightarrow>
             (case get_col emp_df ''Fired'' of
                Inl e \<Rightarrow> Inl e
              | Inr y \<Rightarrow>
                 (case drop_col emp_df ''Fired'' of
                    Inl e \<Rightarrow> Inl e
                  | Inr X \<Rightarrow>
                     (case drop_col emp_df ''Emp_ID'' of
                        Inl e \<Rightarrow> Inl e
                      | Inr X \<Rightarrow> Inr (X, y))))))"

fun training_loop :: "table \<Rightarrow> day list \<Rightarrow> error + (frame \<times> (emp_id \<times> cell) list) list" where
  "training_loop full_train_data [] = Inr []"
| "training_loop full_train_data (date # dates) =
     (case training_step full_train_data date of
        Inl e \<Rightarrow> Inl e
      | Inr xy \<Rightarrow>
         (case training_loop full_train_data dates of
            Inl e \<Rightarrow> Inl e
          | Inr fits \<Rightarrow> Inr (xy # fits)))"

text \<open>
  \<open>main\<close>, as far as the arguments of the classifier go: the pairs \<open>(X, y)\<close> of the
  iterations, in order, and the matrix given to the final \<open>predict\<close>.
\<close>

definition main :: "table \<Rightarrow> emp_id list \<Rightarrow> error + (frame \<times> (emp_id \<times> cell) list) list \<times> frame" where
  "main full_df id_list =
     (case generate_emp_samples full_df of
        Inl e \<Rightarrow> Inl e
      | Inr emp_full_df \<Rightarrow>
         (case split_train_test_emps_frame emp_full_df id_list of
            Inl e \<Rightarrow> Inl e
          | Inr p \<Rightarrow>
             (let test_df = snd p;
                  full_train_data = fst (split_train_test_emps Emp_ID full_df id_list);
                  dates = sort (remdups (map MMM_YY full_train_data))
              in case training_loop full_train_data (drop 9 dates) of
                   Inl e \<Rightarrow> Inl e
                 | Inr fits \<Rightarrow>
                    (case drop_col test_df ''Fired'' of
                       Inl e \<Rightarrow> Inl e
                     | Inr X_final \<Rightarrow> Inr (fits, X_final)))))"

section \<open>Closed forms used in the proofs\<close>

text \<open>The value of an \<open>int64\<close> difference: the integer difference wrapped into the range
  from \<open>- 2 ^ 63\<close> to \<open>2 ^ 63 - 1\<close>.\<close>

definition wrap64 :: "int \<Rightarrow> int" where
  "wrap64 z = (z + 2 ^ 63) mod 2 ^ 64 - 2 ^ 63"

text \<open>What \<open>filter_data\<close> at \<open>end_date\<close> makes of an entry of \<open>LastWorkingDate\<close>.\<close>

definition window_cell :: "day \<Rightarrow> date_cell \<Rightarrow> date_cell" where
  "window_cell end_date c =
     (case c of
        Date d \<Rightarrow> if end_date \<le> d then Null else Nanos (d * 86400000000000)
      | Nanos n \<Rightarrow> Nanos n
      | Null \<Rightarrow> Null)"

text \<open>The row that the loop of \<open>generate_emp_samples\<close> builds for the records \<open>g\<close> of
  employee \<open>i\<close>, with \<open>m\<close> the maximum \<open>MMM-YY\<close> of the table, and the table of these rows.\<close>

definition feature_row :: "day \<Rightarrow> emp_id \<Rightarrow> table \<Rightarrow> (string \<times> cell) list" where
  "feature_row m i g =
     [(''Emp_ID'', CInt i),
      (''Salary Change'',
         CNum (case (series_max (map Salary g), series_min (map Salary g)) of
                 (Some mx, Some mn) \<Rightarrow> true_divide (mx - mn) mn
               | _ \<Rightarrow> NaN)),
      (''Total Business Value All'', CInt (sint (series_sum (map Total_Business_Value g)))),
      (''Overvalue'',
         CNum (series_mean (map (\<lambda>r. true_divide (Total_Business_Value r) (Salary r)) g))),
      (''Work Experience'',
         CInt (ceil_months_ns
                 ((case timestamp_ns (LastWorkingDate (last g)) of None \<Rightarrow> m * ns_per_day | Some w \<Rightarrow> w)
                  - Dateofjoining (hd g) * ns_per_day))),
      (''Fired'', CBool (\<exists>r \<in> set g. LastWorkingDate r \<noteq> Null))]"

definition feature_cols :: "string list" where
  "feature_cols = [''Emp_ID'', ''Salary Change'', ''Total Business Value All'', ''Overvalue'',
                   ''Work Experience'', ''Fired'']"

definition max_month :: "table \<Rightarrow> day" where
  "max_month df = (case date_max (map MMM_YY df) of None \<Rightarrow> 0 | Some m \<Rightarrow> m)"

definition feature_rows :: "table \<Rightarrow> (emp_id \<times> (string \<times> cell) list) list" where
  "feature_rows df =
     map (\<lambda>i. (i, feature_row (max_month df) i (filter (\<lambda>r. Emp_ID r = i) df))) (unique (map Emp_ID df))"

section \<open>Sample tables\<close>

text \<open>Three employees over the months 2017-01 to 2017-03; employee 9 has one record,
  with salary zero.\<close>

definition small_df :: table where
  "small_df =
     [\<lparr>Emp_ID = 7, MMM_YY = 17167, Dateofjoining = 17000, LastWorkingDate = Null,
       Salary = 50000, Total_Business_Value = 1000\<rparr>,
      \<lparr>Emp_ID = 8, MMM_YY = 17167, Dateofjoining = 17100, LastWorkingDate = Null,
       Salary = 42000, Total_Business_Value = 0\<rparr>,
      \<lparr>Emp_ID = 7, MMM_YY = 17198, Dateofjoining = 17000, LastWorkingDate = Date 17348,
       Salary = 60000, Total_Business_Value = - 200\<rparr>,
      \<lparr>Emp_ID = 9, MMM_YY = 17226, Dateofjoining = 17226, LastWorkingDate = Null,
       Salary = 0, Total_Business_Value = 0\<rparr>]"

text \<open>
  Six records around the cutoff 2017-07-01, day 17348: employee 2 left on 2017-06-02,
  before the cutoff, employee 3 on the cutoff and employee 4 on 2017-08-01; the record
  of employee 3 is of the month of the cutoff, that of employee 5 of the month after,
  and employee 6 joined on the cutoff.
\<close>

definition window_df :: table where
  "window_df =
     [\<lparr>Emp_ID = 1, MMM_YY = 17167, Dateofjoining = 17000, LastWorkingDate = Null,
       Salary = 50000, Total_Business_Value = 1000\<rparr>,
      \<lparr>Emp_ID = 2, MMM_YY = 17198, Dateofjoining = 17000, LastWorkingDate = Date 17319,
       Salary = 50000, Total_Business_Value = 1000\<rparr>,
      \<lparr>Emp_ID = 3, MMM_YY = 17348, Dateofjoining = 17347, LastWorkingDate = Date 17348,
       Salary = 50000, Total_Business_Value = 1000\<rparr>,
      \<lparr>Emp_ID = 4, MMM_YY = 17226, Dateofjoining = 17100, LastWorkingDate = Date 17379,
       Salary = 50000, Total_Business_Value = 1000\<rparr>,
      \<lparr>Emp_ID = 5, MMM_YY = 17379, Dateofjoining = 17000, LastWorkingDate = Null,
       Salary = 50000, Total_Business_Value = 1000\<rparr>,
      \<lparr>Emp_ID = 6, MMM_YY = 17348, Dateofjoining = 17348, LastWorkingDate = Null,
       Salary = 50000, Total_Business_Value = 1000\<rparr>]"

text \<open>One employee with the salaries \<open>- 5 * 10 ^ 18\<close> and \<open>5 * 10 ^ 18\<close>: their difference
  is beyond \<open>int64\<close>.\<close>

definition extreme_df :: table where
  "extreme_df =
     [\<lparr>Emp_ID = 1, MMM_YY = 17167, Dateofjoining = 17000, LastWorkingDate = Null,
       Salary = - 5000000000000000000, Total_Business_Value = 0\<rparr>,
      \<lparr>Emp_ID = 1, MMM_YY = 17198, Dateofjoining = 17000, LastWorkingDate = Null,
       Salary = 5000000000000000000, Total_Business_Value = 0\<rparr>]"

text \<open>Eleven employees over the months 2016-01 to 2016-11, all joined on 2015-01-01;
  employees 6 to 10 left on 2016-02-19.\<close>

definition sample_months :: "day list" where
  "sample_months = [16801, 16832, 16861, 16892, 16922, 16953, 16983, 17014, 17045, 17075, 17106]"

definition sample_full_df :: table where
  "sample_full_df =
     map (\<lambda>m. \<lparr>Emp_ID = 1, MMM_YY = m, Dateofjoining = 16436, LastWorkingDate = Null,
               Salary = 50000, Total_Business_Value = 100000\<rparr>) sample_months
     @ map (\<lambda>i. \<lparr>Emp_ID = i, MMM_YY = 16801, Dateofjoining = 16436, LastWorkingDate = Null,
               Salary = 40000, Total_Business_Value = 0\<rparr>) [2, 3, 4, 5, 11]
     @ map (\<lambda>i. \<lparr>Emp_ID = i, MMM_YY = 16832, Dateofjoining = 16436, LastWorkingDate = Date 16850,
               Salary = 30000, Total_Business_Value = - 500\<rparr>) [6, 7, 8, 9, 10]"

section \<open>The train/test splitter\<close>

lemma zip_map_filter:
  "map fst (filter (\<lambda>rb. P (snd rb)) (zip xs (map f xs))) = filter (\<lambda>r. P (f r)) xs"
  by (induction xs) auto

lemma split_train_test_emps_filter:
  "split_train_test_emps emp df id_list =
     (filter (\<lambda>r. emp r \<notin> set id_list) df, filter (\<lambda>r. emp r \<in> set id_list) df)"
  unfolding split_train_test_emps_def Let_def
  using zip_map_filter [of "\<lambda>b. \<not> b" df "\<lambda>r. emp r \<in> set id_list"]
        zip_map_filter [of "\<lambda>b. b" df "\<lambda>r. emp r \<in> set id_list"]
  by simp

text \<open>
  C9. For every table and list of test identifiers, the two tables returned by
  \<open>split_train_test_emps\<close> have no row in common and together hold exactly the rows of
  the input, each as often as the input does; the first holds the rows whose \<open>Emp_ID\<close>
  is not in the list, the second those whose \<open>Emp_ID\<close> is in it.
\<close>

theorem split_disjoint_union:
  "set (fst (split_train_test_emps emp df id_list)) \<inter> set (snd (split_train_test_emps emp df id_list)) = {}
   \<and> mset (fst (split_train_test_emps emp df id_list)) + mset (snd (split_train_test_emps emp df id_list)) = mset df
   \<and> fst (split_train_test_emps emp df id_list) = filter (\<lambda>r. emp r \<notin> set id_list) df
   \<and> snd (split_train_test_emps emp df id_list) = filter (\<lambda>r. emp r \<in> set id_list) df"
proof -
  have "mset (filter (\<lambda>r. emp r \<notin> set id_list) df) + mset (filter (\<lambda>r. emp r \<in> set id_list) df) = mset df"
    by (induction df) auto
  then show ?thesis
    by (auto simp add: split_train_test_emps_filter)
qed

section \<open>The window filter\<close>

lemma column_ge_dates:
  assumes "\<forall>c \<in> set cs. \<forall>n. c \<noteq> Nanos n"
  shows "column_ge cs e = Inr (map (\<lambda>c. case c of Date d \<Rightarrow> e \<le> d | Nanos n \<Rightarrow> False | Null \<Rightarrow> False) cs)"
  using assms
proof (induction cs)
  case Nil
  then show ?case by simp
next
  case (Cons c cs)
  then show ?case by (cases c) (simp_all add: ge_date_def)
qed

lemma column_ge_integer:
  assumes "\<exists>c \<in> set cs. \<exists>n. c = Nanos n"
  shows "column_ge cs e = Inl TypeError"
  using assms
proof (induction cs)
  case Nil
  then show ?case by simp
next
  case (Cons c cs)
  show ?case
  proof (cases c)
    case (Nanos n)
    then show ?thesis by (simp add: ge_date_def)
  next
    case (Date d)
    then have "column_ge cs e = Inl TypeError" using Cons by auto
    then show ?thesis using Date by (simp add: ge_date_def)
  next
    case Null
    then have "column_ge cs e = Inl TypeError" using Cons by auto
    then show ?thesis using Null by (simp add: ge_date_def)
  qed
qed

lemma assign_np_where:
  "set_LastWorkingDate df (np_where (map g (map LastWorkingDate df)) x (map LastWorkingDate df)) =
     map (\<lambda>r. r\<lparr>LastWorkingDate := (if g (LastWorkingDate r) then x else as_object (LastWorkingDate r))\<rparr>) df"
  unfolding set_LastWorkingDate_def np_where_def
  by (induction df) auto

lemma filter_data_dates:
  assumes "\<forall>r \<in> set (select_rows df e). \<forall>n. LastWorkingDate r \<noteq> Nanos n"
  shows "filter_data df e = Inr (map (\<lambda>r. r\<lparr>LastWorkingDate := window_cell e (LastWorkingDate r)\<rparr>) (select_rows df e))"
proof -
  let ?g = "\<lambda>c. case c of Date d \<Rightarrow> e \<le> d | Nanos n \<Rightarrow> False | Null \<Rightarrow> False"
  have c: "column_ge (map LastWorkingDate (select_rows df e)) e
             = Inr (map ?g (map LastWorkingDate (select_rows df e)))"
    using assms by (intro column_ge_dates) auto
  have w: "(if ?g c then Null else as_object c) = window_cell e c" for c
    by (cases c) (simp_all add: as_object_def window_cell_def ns_per_day_def)
  show ?thesis
    unfolding filter_data_def Let_def c
    by (simp only: sum.case assign_np_where w)
qed

lemma filter_data_integer:
  assumes "\<exists>r \<in> set (select_rows df e). \<exists>n. LastWorkingDate r = Nanos n"
  shows "filter_data df e = Inl TypeError"
proof -
  have "column_ge (map LastWorkingDate (select_rows df e)) e = Inl TypeError"
    using assms by (intro column_ge_integer) auto
  then show ?thesis by (simp add: filter_data_def Let_def)
qed

lemma filter_data_output:
  assumes "filter_data df e = Inr out"
  shows "out = map (\<lambda>r. r\<lparr>LastWorkingDate := window_cell e (LastWorkingDate r)\<rparr>) (select_rows df e)
         \<and> (\<forall>r \<in> set (select_rows df e). \<forall>n. LastWorkingDate r \<noteq> Nanos n)"
proof (cases "\<exists>r \<in> set (select_rows df e). \<exists>n. LastWorkingDate r = Nanos n")
  case True
  from filter_data_integer [OF this] assms show ?thesis by simp
next
  case False
  then have d: "\<forall>r \<in> set (select_rows df e). \<forall>n. LastWorkingDate r \<noteq> Nanos n" by blast
  from filter_data_dates [OF d] assms d show ?thesis by simp
qed

lemma filter_data_output_cells:
  assumes "filter_data df e = Inr out" and "r \<in> set out"
  shows "MMM_YY r \<le> e \<and> Dateofjoining r < e \<and> (LastWorkingDate r = Null \<or> (\<exists>n. LastWorkingDate r = Nanos n))"
proof -
  from filter_data_output [OF assms(1)] assms(2)
  obtain r0 where r0: "r0 \<in> set (select_rows df e)"
    and r: "r = r0\<lparr>LastWorkingDate := window_cell e (LastWorkingDate r0)\<rparr>"
    by auto
  have "window_cell e c = Null \<or> (\<exists>n. window_cell e c = Nanos n)" for c
    by (cases c) (simp_all add: window_cell_def)
  then show ?thesis using r0 r by (auto simp add: select_rows_def)
qed

text \<open>
  C4, as the code has it. If a row selected by the two date conditions already holds an
  integer in \<open>LastWorkingDate\<close>, \<open>filter_data\<close> raises \<open>TypeError\<close>. Otherwise it
  returns a table; every row of it has \<open>MMM-YY\<close> at most \<open>end_date\<close> and
  \<open>Dateofjoining\<close> before \<open>end_date\<close>; its rows are, in order, the input rows that
  satisfy these two conditions, with \<open>LastWorkingDate\<close> set to null where it is a date
  at or after \<open>end_date\<close>, turned into the integer of nanoseconds of the same date
  where it is a date before \<open>end_date\<close>, and left null where it is null; no other
  field changes.
\<close>

theorem filter_data_rows:
  "if \<exists>r \<in> set df. MMM_YY r \<le> end_date \<and> Dateofjoining r < end_date \<and> (\<exists>n. LastWorkingDate r = Nanos n)
   then filter_data df end_date = Inl TypeError
   else \<exists>out. filter_data df end_date = Inr out
          \<and> (\<forall>r' \<in> set out. MMM_YY r' \<le> end_date \<and> Dateofjoining r' < end_date)
          \<and> list_all2
               (\<lambda>r r'. r' = r\<lparr>LastWorkingDate :=
                                  (case LastWorkingDate r of
                                     Date d \<Rightarrow> if end_date \<le> d then Null else Nanos (d * 86400000000000)
                                   | Nanos n \<Rightarrow> Nanos n
                                   | Null \<Rightarrow> Null)\<rparr>)
               (filter (\<lambda>r. MMM_YY r \<le> end_date \<and> Dateofjoining r < end_date) df) out"
proof (cases "\<exists>r \<in> set df. MMM_YY r \<le> end_date \<and> Dateofjoining r < end_date \<and> (\<exists>n. LastWorkingDate r = Nanos n)")
  case True
  then have "\<exists>r \<in> set (select_rows df end_date). \<exists>n. LastWorkingDate r = Nanos n"
    by (auto simp add: select_rows_def)
  then show ?thesis using True by (simp only: filter_data_integer if_True)
next
  case False
  then have "\<forall>r \<in> set (select_rows df end_date). \<forall>n. LastWorkingDate r \<noteq> Nanos n"
    by (auto simp add: select_rows_def)
  from filter_data_dates [OF this]
  have "filter_data df end_date =
          Inr (map (\<lambda>r. r\<lparr>LastWorkingDate := window_cell end_date (LastWorkingDate r)\<rparr>)
                 (filter (\<lambda>r. MMM_YY r \<le> end_date \<and> Dateofjoining r < end_date) df))"
    by (simp add: select_rows_def)
  then show ?thesis
    using False
    by (auto simp add: list_all2_map2 window_cell_def intro!: list_all2_refl)
qed

theorem filter_data_rows_witness:
  "map_sum id (map (\<lambda>r. (Emp_ID r, MMM_YY r, Dateofjoining r, LastWorkingDate r))) (filter_data window_df 17348)
     = Inr [(1, 17167, 17000, Null), (2, 17198, 17000, Nanos 1496361600000000000),
            (3, 17348, 17347, Null), (4, 17226, 17100, Null)]"
proof -
  have f: "filter (\<lambda>r. MMM_YY r \<le> 17348 \<and> Dateofjoining r < 17348) window_df = take 4 window_df"
    by (simp add: window_df_def)
  have n: "\<not> (\<exists>r \<in> set window_df. MMM_YY r \<le> 17348 \<and> Dateofjoining r < 17348 \<and> (\<exists>n. LastWorkingDate r = Nanos n))"
    by (simp add: window_df_def)
  from filter_data_rows [of window_df 17348] n
  obtain out where o: "filter_data window_df 17348 = Inr out"
    and l: "list_all2
               (\<lambda>r r'. r' = r\<lparr>LastWorkingDate :=
                                  (case LastWorkingDate r of
                                     Date d \<Rightarrow> if 17348 \<le> d then Null else Nanos (d * 86400000000000)
                                   | Nanos n \<Rightarrow> Nanos n
                                   | Null \<Rightarrow> Null)\<rparr>)
               (take 4 window_df) out"
    unfolding f by (auto simp only: if_False)
  from l have "map (\<lambda>r. (Emp_ID r, MMM_YY r, Dateofjoining r, LastWorkingDate r)) out
        = [(1, 17167, 17000, Null), (2, 17198, 17000, Nanos 1496361600000000000),
            (3, 17348, 17347, Null), (4, 17226, 17100, Null)]"
    by (auto simp add: window_df_def list_all2_Cons1)
  then show ?thesis by (simp add: o)
qed

text \<open>In the sample filtered at its cutoff, employee 2 left before the cutoff: the
  \<open>LastWorkingDate\<close> of the output row is not the date of the input row but the
  integer 1496361600000000000.\<close>

theorem retained_date_counterexample:
  "map (\<lambda>r. (Emp_ID r, LastWorkingDate r)) (select_rows window_df 17348)
     = [(1, Null), (2, Date 17319), (3, Date 17348), (4, Date 17379)]
   \<and> map_sum id (map (\<lambda>r. (Emp_ID r, LastWorkingDate r))) (filter_data window_df 17348)
     = Inr [(1, Null), (2, Nanos 1496361600000000000), (3, Null), (4, Null)]
   \<and> \<not> 17348 \<le> (17319 :: int)
   \<and> Nanos 1496361600000000000 \<noteq> Date 17319"
  by code_simp

text \<open>
  C8, as the code has it. When \<open>filter_data\<close> at \<open>end_date\<close> returns a table, filtering
  that table at \<open>end_date\<close> again gives the same table if every \<open>LastWorkingDate\<close> in
  it is null, and raises \<open>TypeError\<close> otherwise.
\<close>

theorem filter_data_twice:
  assumes "filter_data df end_date = Inr out"
  shows "filter_data out end_date =
           (if \<forall>r \<in> set out. LastWorkingDate r = Null then Inr out else Inl TypeError)"
proof -
  note c = filter_data_output_cells [OF assms]
  have s: "select_rows out end_date = out"
    using c by (simp add: select_rows_def)
  show ?thesis
  proof (cases "\<forall>r \<in> set out. LastWorkingDate r = Null")
    case True
    then have "\<forall>r \<in> set (select_rows out end_date). \<forall>n. LastWorkingDate r \<noteq> Nanos n"
      by (simp add: s)
    from filter_data_dates [OF this]
    have "filter_data out end_date
            = Inr (map (\<lambda>r. r\<lparr>LastWorkingDate := window_cell end_date (LastWorkingDate r)\<rparr>) out)"
      by (simp only: s)
    moreover have "map (\<lambda>r. r\<lparr>LastWorkingDate := window_cell end_date (LastWorkingDate r)\<rparr>) out = map (\<lambda>r. r) out"
      using True by (intro map_cong refl) (simp add: window_cell_def)
    ultimately show ?thesis using True by simp
  next
    case False
    then obtain r where r: "r \<in> set out" and "LastWorkingDate r \<noteq> Null" by blast
    then have "\<exists>n. LastWorkingDate r = Nanos n"
      using c [OF r] by blast
    then have "\<exists>r \<in> set out. \<exists>n. LastWorkingDate r = Nanos n"
      using r by blast
    then have "\<exists>r \<in> set (select_rows out end_date). \<exists>n. LastWorkingDate r = Nanos n"
      by (simp only: s)
    from filter_data_integer [OF this] False show ?thesis by simp
  qed
qed

theorem filter_data_twice_witness:
  "map_sum id (map (\<lambda>r. (Emp_ID r, LastWorkingDate r))) (filter_data small_df 17198)
     = Inr [(7, Null), (8, Null), (7, Null)]
   \<and> (case filter_data small_df 17198 of Inl e \<Rightarrow> False | Inr out \<Rightarrow> filter_data out 17198 = Inr out)"
proof -
  have n: "\<forall>r \<in> set (select_rows small_df 17198). \<forall>n. LastWorkingDate r \<noteq> Nanos n"
    by (simp add: small_df_def select_rows_def)
  let ?out = "map (\<lambda>r. r\<lparr>LastWorkingDate := window_cell 17198 (LastWorkingDate r)\<rparr>) (select_rows small_df 17198)"
  have o: "filter_data small_df 17198 = Inr ?out"
    by (rule filter_data_dates [OF n])
  have a: "\<forall>r \<in> set ?out. LastWorkingDate r = Null"
    by (simp add: small_df_def select_rows_def window_cell_def)
  have v: "map (\<lambda>r. (Emp_ID r, LastWorkingDate r)) ?out = [(7, Null), (8, Null), (7, Null)]"
    by (simp add: small_df_def select_rows_def window_cell_def)
  have "filter_data ?out 17198 = (if \<forall>r \<in> set ?out. LastWorkingDate r = Null then Inr ?out else Inl TypeError)"
    by (rule filter_data_twice [OF o])
  also have "\<dots> = Inr ?out"
    using a by (rule if_P)
  finally have "filter_data ?out 17198 = Inr ?out" .
  then show ?thesis using v by (simp add: o)
qed

text \<open>The sample filtered at its cutoff keeps the departure of employee 2, as an integer;
  filtering the result at the same cutoff raises \<open>TypeError\<close>.\<close>

theorem filter_data_twice_counterexample:
  "map_sum id (map (\<lambda>r. (Emp_ID r, LastWorkingDate r))) (filter_data window_df 17348)
     = Inr [(1, Null), (2, Nanos 1496361600000000000), (3, Null), (4, Null)]
   \<and> (case filter_data window_df 17348 of Inl e \<Rightarrow> Inl e | Inr out \<Rightarrow> filter_data out 17348)
     = Inl TypeError"
  by code_simp

text \<open>
  C10. On a store of table objects, \<open>filter_data\<close> called on the address of a table
  leaves the input table, and every object that existed before the call, as it was,
  whether it returns or raises; when it returns, the result is a new object, and it
  holds the filtered table.
\<close>

theorem filter_data_store_frame:
  assumes "df < length h"
  shows "\<exists>res h'. filter_data_store h df end_date = Some (res, h')
           \<and> h' ! df = h ! df
           \<and> (\<forall>b < length h. h' ! b = h ! b)
           \<and> (case res of
                Inl e \<Rightarrow> filter_data (h ! df) end_date = Inl e
              | Inr a \<Rightarrow> length h \<le> a \<and> a < length h' \<and> filter_data (h ! df) end_date = Inr (h' ! a))"
proof (cases "column_ge (map LastWorkingDate (select_rows (h ! df) end_date)) end_date")
  case (Inl e)
  then show ?thesis
    using assms
    by (simp add: filter_data_store_def alloc_def Let_def filter_data_def nth_append)
next
  case (Inr c)
  then show ?thesis
    using assms
    by (simp add: filter_data_store_def alloc_def Let_def filter_data_def nth_append)
qed

theorem filter_data_store_frame_witness:
  "(case filter_data_store [small_df] 0 17198 of
      None \<Rightarrow> False
    | Some (res, h') \<Rightarrow> res = Inr 2 \<and> length h' = 3 \<and> h' ! 0 = small_df
        \<and> filter_data small_df 17198 = Inr (h' ! 2))"
proof -
  have "(0::nat) < length [small_df]" by simp
  from filter_data_store_frame [OF this, of 17198]
  obtain res h' where s: "filter_data_store [small_df] 0 17198 = Some (res, h')"
    and u: "h' ! 0 = [small_df] ! 0"
    and r: "case res of
                Inl e \<Rightarrow> filter_data ([small_df] ! 0) 17198 = Inl e
              | Inr a \<Rightarrow> length [small_df] \<le> a \<and> a < length h'
                  \<and> filter_data ([small_df] ! 0) 17198 = Inr (h' ! a)"
    by blast
  have n: "\<forall>r \<in> set (select_rows small_df 17198). \<forall>n. LastWorkingDate r \<noteq> Nanos n"
    by (simp add: small_df_def select_rows_def)
  have c: "column_ge (map LastWorkingDate (select_rows small_df 17198)) 17198
             = Inr (map (\<lambda>c. case c of Date d \<Rightarrow> 17198 \<le> d | Nanos n \<Rightarrow> False | Null \<Rightarrow> False)
                      (map LastWorkingDate (select_rows small_df 17198)))"
    using n by (intro column_ge_dates) auto
  have "fst (the (filter_data_store [small_df] 0 17198)) = Inr 2
        \<and> length (snd (the (filter_data_store [small_df] 0 17198))) = 3"
    by (simp add: filter_data_store_def alloc_def Let_def c)
  then have "res = Inr 2" and "length h' = 3" using s by simp_all
  then show ?thesis using s u r by simp
qed

section \<open>The feature aggregator\<close>

lemma feature_row_keys: "map fst (feature_row m i g) = feature_cols"
  by (simp add: feature_row_def feature_cols_def)

lemma distinct_feature_cols: "distinct feature_cols"
  by (simp add: feature_cols_def)

lemma employee_features_of_group:
  assumes "g \<noteq> []" and "\<forall>r \<in> set g. Emp_ID r = i"
  shows "employee_features_of (Some m) g = Inr (i, feature_row m i g)"
proof -
  obtain r0 rs where g: "g = r0 # rs" using assms(1) by (cases g) auto
  have i: "Emp_ID r0 = i" using assms(2) g by simp
  have f: "filter (\<lambda>r. Emp_ID r = i) g = g" using assms(2) by (simp add: filter_id_conv)
  have ex: "(\<not> list_all (\<lambda>r. LastWorkingDate r = Null) g) = (\<exists>r \<in> set g. LastWorkingDate r \<noteq> Null)"
    by (simp add: list_all_iff)
  have "employee_features_of (Some m) (r0 # rs) = Inr (i, feature_row m i (r0 # rs))"
    unfolding employee_features_of_def feature_row_def Let_def
    using i f ex unfolding g
    by (simp split: option.split)
  then show ?thesis by (simp add: g)
qed

lemma update_fresh: "k \<notin> fst ` set al \<Longrightarrow> AList.update k v al = al @ [(k, v)]"
  by (induction al) auto

lemma employee_loop_groups:
  assumes "distinct ids" and "set ids \<inter> fst ` set acc = {}"
    and "\<forall>i \<in> set ids. i \<in> Emp_ID ` set df"
  shows "employee_loop (Some m) (map (\<lambda>i. filter (\<lambda>r. Emp_ID r = i) df) ids) acc =
           Inr (acc @ map (\<lambda>i. (i, feature_row m i (filter (\<lambda>r. Emp_ID r = i) df))) ids)"
  using assms
proof (induction ids arbitrary: acc)
  case Nil
  then show ?case by simp
next
  case (Cons i ids)
  let ?g = "filter (\<lambda>r. Emp_ID r = i) df"
  have ne: "?g \<noteq> []" using Cons.prems(3) by (auto simp add: filter_empty_conv)
  have e: "employee_features_of (Some m) ?g = Inr (i, feature_row m i ?g)"
    using ne by (intro employee_features_of_group) auto
  have fresh: "i \<notin> fst ` set acc" using Cons.prems(2) by auto
  have d: "distinct ids" using Cons.prems(1) by simp
  have dj: "set ids \<inter> fst ` set (acc @ [(i, feature_row m i ?g)]) = {}"
    using Cons.prems(1,2) by auto
  have m: "\<forall>j \<in> set ids. j \<in> Emp_ID ` set df" using Cons.prems(3) by simp
  show ?case
    using Cons.IH [OF d dj m] e by (simp add: update_fresh [OF fresh])
qed

lemma set_unique: "set (unique xs) = set xs"
  by (simp add: unique_def)

lemma distinct_unique: "distinct (unique xs)"
  by (simp add: unique_def)

lemma unique_append_subset:
  assumes "distinct cs" and "set ys \<subseteq> set cs"
  shows "unique (cs @ ys) = cs"
proof -
  have "set (rev ys) \<subseteq> set (rev cs)"
    using assms(2) by simp
  then have "remdups (rev ys @ rev cs) = remdups (rev cs)"
    by (rule remdups_append)
  then show ?thesis
    using assms(1) by (simp add: unique_def distinct_remdups_id)
qed

lemma reindex_row:
  "distinct (map fst r) \<Longrightarrow>
     map (\<lambda>c. (c, case map_of r c of None \<Rightarrow> d | Some v \<Rightarrow> v)) (map fst r) = r"
proof (induction r)
  case Nil
  then show ?case by simp
next
  case (Cons p r)
  let ?F = "\<lambda>c. (c, case map_of r c of None \<Rightarrow> d | Some v \<Rightarrow> v)"
  let ?G = "\<lambda>c. (c, case map_of (p # r) c of None \<Rightarrow> d | Some v \<Rightarrow> v)"
  obtain k v where p: "p = (k, v)" by (cases p)
  have k: "k \<notin> set (map fst r)" using Cons.prems p by simp
  have a: "map ?G (map fst r) = map ?F (map fst r)"
  proof (rule map_cong [OF refl])
    fix c assume "c \<in> set (map fst r)"
    then have "c \<noteq> k" using k by blast
    then show "?G c = ?F c" by (simp add: p)
  qed
  have "distinct (map fst r)" using Cons.prems by simp
  then have b: "map ?F (map fst r) = r" by (rule Cons.IH)
  have c: "?G k = p" by (simp add: p)
  have "map ?G (map fst (p # r)) = ?G k # map ?G (map fst r)"
    by (simp only: list.map p fst_conv)
  then show ?case by (simp only: a b c)
qed

lemma from_dict_uniform:
  assumes "d \<noteq> []" and "\<forall>kv \<in> set d. map fst (snd kv) = cs" and "distinct cs"
  shows "from_dict d = \<lparr>cols = cs, rows = d\<rparr>"
proof -
  obtain kv rest where d: "d = kv # rest" using assms(1) by (cases d) auto
  have "set (concat (map (\<lambda>kv. map fst (snd kv)) rest)) \<subseteq> set cs"
    using assms(2) d by auto
  then have u: "unique (concat (map (\<lambda>kv. map fst (snd kv)) d)) = cs"
    using assms(2,3) d unique_append_subset [of cs "concat (map (\<lambda>kv. map fst (snd kv)) rest)"]
    by simp
  have "map (\<lambda>kv. (fst kv, map (\<lambda>c. (c, case map_of (snd kv) c of None \<Rightarrow> CNum NaN | Some v \<Rightarrow> v)) cs)) d
        = map (\<lambda>kv. kv) d"
  proof (intro map_cong refl)
    fix kv assume "kv \<in> set d"
    then have k: "map fst (snd kv) = cs" using assms(2) by simp
    then have "distinct (map fst (snd kv))" using assms(3) by simp
    from reindex_row [OF this, of "CNum NaN"]
    have "map (\<lambda>c. (c, case map_of (snd kv) c of None \<Rightarrow> CNum NaN | Some v \<Rightarrow> v)) cs = snd kv"
      unfolding k .
    then show "(fst kv, map (\<lambda>c. (c, case map_of (snd kv) c of None \<Rightarrow> CNum NaN | Some v \<Rightarrow> v)) cs) = kv"
      by simp
  qed
  then show ?thesis
    by (simp add: from_dict_def Let_def u)
qed

text \<open>\<open>generate_emp_samples\<close> raises no error, and its table is the table of the closed form.\<close>

lemma generate_emp_samples_rows:
  "generate_emp_samples df =
     Inr \<lparr>cols = (if df = [] then [] else feature_cols), rows = feature_rows df\<rparr>"
proof (cases df)
  case Nil
  then show ?thesis
    by (simp add: generate_emp_samples_def unique_def date_max_def from_dict_def feature_rows_def)
next
  case (Cons r rs)
  then have m: "date_max (map MMM_YY df) = Some (max_month df)"
    by (simp add: date_max_def max_month_def)
  have l: "employee_loop (Some (max_month df))
             (map (\<lambda>i. filter (\<lambda>r. Emp_ID r = i) df) (unique (map Emp_ID df))) [] =
           Inr (feature_rows df)"
    using employee_loop_groups [of "unique (map Emp_ID df)" "[]" df "max_month df"]
    by (simp add: distinct_unique set_unique feature_rows_def)
  have ne: "feature_rows df \<noteq> []"
    using Cons set_unique [of "map Emp_ID df"] by (auto simp add: feature_rows_def)
  have "from_dict (feature_rows df) = \<lparr>cols = feature_cols, rows = feature_rows df\<rparr>"
    using ne by (intro from_dict_uniform) (auto simp add: feature_rows_def feature_row_keys distinct_feature_cols)
  then show ?thesis
    using Cons l m by (simp add: generate_emp_samples_def Let_def)
qed

lemma map_of_feature_rows:
  "i \<in> Emp_ID ` set df \<Longrightarrow>
     map_of (feature_rows df) i = Some (feature_row (max_month df) i (filter (\<lambda>r. Emp_ID r = i) df))"
proof -
  have "i \<in> set ids \<Longrightarrow> map_of (map (\<lambda>i. (i, F i)) ids) i = Some (F i)" for ids and F :: "emp_id \<Rightarrow> (string \<times> cell) list"
    by (induction ids) auto
  then show "i \<in> Emp_ID ` set df \<Longrightarrow> ?thesis"
    unfolding feature_rows_def using set_unique [of "map Emp_ID df"] by auto
qed

lemma frame_cell_generate:
  assumes "i \<in> Emp_ID ` set df" and "generate_emp_samples df = Inr f"
  shows "frame_cell f i c = map_of (feature_row (max_month df) i (filter (\<lambda>r. Emp_ID r = i) df)) c"
  using assms by (auto simp add: generate_emp_samples_rows frame_cell_def map_of_feature_rows)

text \<open>
  C5. \<open>generate_emp_samples\<close> returns a table, and for every employee of the input the
  field \<open>Fired\<close> of that employee's row is true if and only if some record of the
  employee in the input has a non-null \<open>LastWorkingDate\<close>.
\<close>

theorem Fired_iff_LastWorkingDate:
  "\<exists>f. generate_emp_samples df = Inr f \<and>
     (\<forall>i \<in> Emp_ID ` set df.
        frame_cell f i ''Fired'' = Some (CBool (\<exists>r \<in> set df. Emp_ID r = i \<and> LastWorkingDate r \<noteq> Null)))"
proof -
  obtain f where f: "generate_emp_samples df = Inr f"
    by (simp add: generate_emp_samples_rows)
  have "frame_cell f i ''Fired'' = Some (CBool (\<exists>r \<in> set df. Emp_ID r = i \<and> LastWorkingDate r \<noteq> Null))"
    if "i \<in> Emp_ID ` set df" for i
    using frame_cell_generate [OF that f, of "''Fired''"]
    by (auto simp add: feature_row_def)
  then show ?thesis using f by blast
qed

theorem Fired_iff_LastWorkingDate_witness:
  "map_sum id (\<lambda>f. (frame_cell f 7 ''Fired'', frame_cell f 8 ''Fired'')) (generate_emp_samples small_df)
     = Inr (Some (CBool True), Some (CBool False))"
proof -
  obtain f where f: "generate_emp_samples small_df = Inr f"
    and c: "\<forall>i \<in> Emp_ID ` set small_df.
        frame_cell f i ''Fired'' = Some (CBool (\<exists>r \<in> set small_df. Emp_ID r = i \<and> LastWorkingDate r \<noteq> Null))"
    using Fired_iff_LastWorkingDate [of small_df] by blast
  have "frame_cell f 7 ''Fired'' = Some (CBool True)"
    using c by (simp add: small_df_def)
  moreover have "frame_cell f 8 ''Fired'' = Some (CBool False)"
    using c by (simp add: small_df_def)
  ultimately show ?thesis by (simp add: f)
qed

text \<open>
  C6. For every non-empty input table \<open>generate_emp_samples\<close> returns a table whose row
  labels are pairwise distinct and are exactly the \<open>Emp_ID\<close>s of the input, so there are
  as many rows as distinct \<open>Emp_ID\<close>s, and the column \<open>Emp_ID\<close> of each row holds the
  label of the row.
\<close>

theorem one_row_per_Emp_ID:
  assumes "df \<noteq> []"
  shows "\<exists>f. generate_emp_samples df = Inr f
           \<and> distinct (map fst (rows f))
           \<and> set (map fst (rows f)) = Emp_ID ` set df
           \<and> length (rows f) = card (Emp_ID ` set df)
           \<and> get_col f ''Emp_ID'' = Inr (map (\<lambda>i. (i, CInt i)) (map fst (rows f)))"
proof -
  let ?f = "\<lparr>cols = feature_cols, rows = feature_rows df\<rparr>"
  have f: "generate_emp_samples df = Inr ?f"
    using assms by (simp add: generate_emp_samples_rows)
  have ix: "map fst (feature_rows df) = unique (map Emp_ID df)"
    by (simp add: feature_rows_def comp_def)
  have d: "distinct (map fst (rows ?f))"
    by (simp add: ix distinct_unique)
  have s: "set (map fst (rows ?f)) = Emp_ID ` set df"
    using ix set_unique [of "map Emp_ID df"] by simp
  have "length (rows ?f) = length (map fst (rows ?f))" by simp
  also have "\<dots> = card (set (map fst (rows ?f)))"
    using d by (simp only: distinct_card)
  finally have l: "length (rows ?f) = card (Emp_ID ` set df)"
    using s by simp
  have g: "get_col ?f ''Emp_ID'' = Inr (map (\<lambda>i. (i, CInt i)) (map fst (rows ?f)))"
    by (simp add: get_col_def feature_cols_def feature_rows_def feature_row_def comp_def)
  show ?thesis using f d s l g by blast
qed

theorem one_row_per_Emp_ID_witness:
  "small_df \<noteq> [] \<and>
   map_sum id (\<lambda>f. (map fst (rows f), get_col f ''Emp_ID'')) (generate_emp_samples small_df)
     = Inr ([7, 8, 9], Inr [(7, CInt 7), (8, CInt 8), (9, CInt 9)])"
proof -
  have ne: "small_df \<noteq> []" by (simp add: small_df_def)
  obtain f where f: "generate_emp_samples small_df = Inr f"
    and g: "get_col f ''Emp_ID'' = Inr (map (\<lambda>i. (i, CInt i)) (map fst (rows f)))"
    using one_row_per_Emp_ID [OF ne] by blast
  have "map_sum id (\<lambda>f. map fst (rows f)) (generate_emp_samples small_df) = Inr [7, 8, 9]"
    by code_simp
  then have "map fst (rows f) = [7, 8, 9]" by (simp add: f)
  then show ?thesis using ne f g by simp
qed

lemma sint_fold_smax: "sint (fold smax ys x) = Max (set (sint x # map sint ys))"
proof -
  have "sint (fold smax ys x) = fold max (map sint ys) (sint x)"
    by (induction ys arbitrary: x) (simp_all add: smax_def max_def)
  then show ?thesis by (simp only: Max.set_eq_fold)
qed

lemma sint_fold_smin: "sint (fold smin ys x) = Min (set (sint x # map sint ys))"
proof -
  have "sint (fold smin ys x) = fold min (map sint ys) (sint x)"
    by (induction ys arbitrary: x) (simp_all add: smin_def min_def)
  then show ?thesis by (simp only: Min.set_eq_fold)
qed

lemma sint_minus_wrap64: "sint (a - b :: int64) = wrap64 (sint a - sint b)"
  by (simp add: sint_word_ariths wrap64_def signed_take_bit_eq_take_bit_shift take_bit_eq_mod)

lemma wrap64_id: "- (2 ^ 63) \<le> z \<Longrightarrow> z < 2 ^ 63 \<Longrightarrow> wrap64 z = z"
  by (simp add: wrap64_def)

lemma Salary_Change_cell:
  assumes "i \<in> Emp_ID ` set df" and "generate_emp_samples df = Inr f"
  shows "frame_cell f i ''Salary Change'' =
           Some (CNum (fdiv
             (Finite (of_int (wrap64
                (Max (set (map (\<lambda>r. sint (Salary r)) (filter (\<lambda>r. Emp_ID r = i) df)))
                 - Min (set (map (\<lambda>r. sint (Salary r)) (filter (\<lambda>r. Emp_ID r = i) df)))))))
             (Finite (of_int (Min (set (map (\<lambda>r. sint (Salary r)) (filter (\<lambda>r. Emp_ID r = i) df))))))))"
proof -
  let ?g = "filter (\<lambda>r. Emp_ID r = i) df"
  obtain r rs where g: "?g = r # rs"
    using assms(1) by (cases ?g) (auto simp add: filter_empty_conv)
  have mx: "series_max (map Salary ?g) = Some (fold smax (map Salary rs) (Salary r))"
    and mn: "series_min (map Salary ?g) = Some (fold smin (map Salary rs) (Salary r))"
    by (simp_all add: g series_max_def series_min_def)
  have s: "set (map (\<lambda>r. sint (Salary r)) ?g) = set (sint (Salary r) # map sint (map Salary rs))"
    by (simp add: g image_image)
  have "frame_cell f i ''Salary Change'' =
          Some (CNum (true_divide (fold smax (map Salary rs) (Salary r) - fold smin (map Salary rs) (Salary r))
                                  (fold smin (map Salary rs) (Salary r))))"
    using frame_cell_generate [OF assms, of "''Salary Change''"]
    by (simp add: feature_row_def mx mn)
  then show ?thesis
    unfolding true_divide_def sint_minus_wrap64 sint_fold_smax sint_fold_smin s .
qed

text \<open>
  C7, as the code has it. For every employee of the input, with \<open>mx\<close> and \<open>mn\<close> the
  maximum and minimum \<open>Salary\<close> over the employee's records: if \<open>mn\<close> is not zero,
  \<open>Salary Change\<close> is the \<open>int64\<close> difference of \<open>mx\<close> and \<open>mn\<close> divided by \<open>mn\<close>, which
  is \<open>(mx - mn) / mn\<close> when \<open>mx - mn\<close> is below \<open>2 ^ 63\<close>, and it is 0 when the employee
  has exactly one record; if \<open>mn\<close> is zero, \<open>Salary Change\<close> is not a number when \<open>mx\<close>
  is zero too, and infinite otherwise.
\<close>

theorem Salary_Change_value:
  assumes "i \<in> Emp_ID ` set df"
  shows "\<exists>f. generate_emp_samples df = Inr f \<and>
     (let s = map (\<lambda>r. sint (Salary r)) (filter (\<lambda>r. Emp_ID r = i) df); mx = Max (set s); mn = Min (set s)
      in (mn \<noteq> 0 \<longrightarrow>
            frame_cell f i ''Salary Change'' = Some (CNum (Finite (of_int (wrap64 (mx - mn)) / of_int mn))))
       \<and> (mn \<noteq> 0 \<and> mx - mn < 2 ^ 63 \<longrightarrow>
            frame_cell f i ''Salary Change'' = Some (CNum (Finite (of_int (mx - mn) / of_int mn))))
       \<and> (mn = 0 \<longrightarrow> frame_cell f i ''Salary Change'' = Some (CNum (if mx = 0 then NaN else PInf)))
       \<and> (length s = 1 \<and> mn \<noteq> 0 \<longrightarrow> frame_cell f i ''Salary Change'' = Some (CNum (Finite 0))))"
proof -
  let ?s = "map (\<lambda>r. sint (Salary r)) (filter (\<lambda>r. Emp_ID r = i) df)"
  obtain f where f: "generate_emp_samples df = Inr f"
    by (simp add: generate_emp_samples_rows)
  note c = Salary_Change_cell [OF assms f]
  have "Max (set ?s) \<in> set ?s"
    using assms by (intro Max_in) auto
  then have le: "Min (set ?s) \<le> Max (set ?s)"
    by (intro Min_le) simp_all
  have "Max (set ?s) \<in> sint ` (UNIV :: int64 set)"
    using \<open>Max (set ?s) \<in> set ?s\<close> by auto
  then have ub: "Max (set ?s) < 2 ^ 63"
    using sint_lt [where 'a = 64] by auto
  have one: "Max (set ?s) = Min (set ?s)" if "length ?s = 1"
  proof -
    from that obtain x where "?s = [x]" by (cases ?s) auto
    then show ?thesis by simp
  qed
  have w0: "wrap64 0 = 0" by (simp add: wrap64_def)
  have a: "Min (set ?s) \<noteq> 0 \<longrightarrow>
        frame_cell f i ''Salary Change'' =
          Some (CNum (Finite (of_int (wrap64 (Max (set ?s) - Min (set ?s))) / of_int (Min (set ?s)))))"
    using c by simp
  have a': "Min (set ?s) \<noteq> 0 \<and> Max (set ?s) - Min (set ?s) < 2 ^ 63 \<longrightarrow>
        frame_cell f i ''Salary Change'' =
          Some (CNum (Finite (of_int (Max (set ?s) - Min (set ?s)) / of_int (Min (set ?s)))))"
  proof
    assume h: "Min (set ?s) \<noteq> 0 \<and> Max (set ?s) - Min (set ?s) < 2 ^ 63"
    then have "wrap64 (Max (set ?s) - Min (set ?s)) = Max (set ?s) - Min (set ?s)"
      using le by (intro wrap64_id) simp_all
    then show "frame_cell f i ''Salary Change'' =
          Some (CNum (Finite (of_int (Max (set ?s) - Min (set ?s)) / of_int (Min (set ?s)))))"
      using a h by simp
  qed
  have b: "Min (set ?s) = 0 \<longrightarrow>
        frame_cell f i ''Salary Change'' = Some (CNum (if Max (set ?s) = 0 then NaN else PInf))"
  proof
    assume z: "Min (set ?s) = 0"
    then have "wrap64 (Max (set ?s) - Min (set ?s)) = Max (set ?s)"
      using le ub wrap64_id [of "Max (set ?s)"] by simp
    then show "frame_cell f i ''Salary Change'' = Some (CNum (if Max (set ?s) = 0 then NaN else PInf))"
      using c z le by auto
  qed
  have d: "length ?s = 1 \<and> Min (set ?s) \<noteq> 0 \<longrightarrow> frame_cell f i ''Salary Change'' = Some (CNum (Finite 0))"
    using c one w0 by auto
  show ?thesis
    unfolding Let_def using f a a' b d by blast
qed

theorem Salary_Change_value_witness:
  "map_sum id (\<lambda>f. (frame_cell f 7 ''Salary Change'', frame_cell f 8 ''Salary Change'',
                     frame_cell f 9 ''Salary Change''))
     (generate_emp_samples small_df)
     = Inr (Some (CNum (Finite (1 / 5))), Some (CNum (Finite 0)), Some (CNum NaN))
   \<and> map_sum id (\<lambda>f. frame_cell f 1 ''Salary Change'') (generate_emp_samples extreme_df)
     = Inr (Some (CNum (Finite (- 8446744073709551616 / - 5000000000000000000))))"
proof -
  have 7: "7 \<in> Emp_ID ` set small_df" and 8: "8 \<in> Emp_ID ` set small_df"
    and 9: "9 \<in> Emp_ID ` set small_df" and 1: "1 \<in> Emp_ID ` set extreme_df"
    by (simp_all add: small_df_def extreme_df_def)
  have s7: "map (\<lambda>r. sint (Salary r)) (filter (\<lambda>r. Emp_ID r = 7) small_df) = [50000, 60000]"
    and s8: "map (\<lambda>r. sint (Salary r)) (filter (\<lambda>r. Emp_ID r = 8) small_df) = [42000]"
    and s9: "map (\<lambda>r. sint (Salary r)) (filter (\<lambda>r. Emp_ID r = 9) small_df) = [0]"
    and s1: "map (\<lambda>r. sint (Salary r)) (filter (\<lambda>r. Emp_ID r = 1) extreme_df)
               = [- 5000000000000000000, 5000000000000000000]"
    by (simp_all add: small_df_def extreme_df_def)
  have w: "wrap64 (5000000000000000000 - - 5000000000000000000) = - 8446744073709551616"
    by (simp add: wrap64_def)
  obtain f where f: "generate_emp_samples small_df = Inr f"
    and "frame_cell f 7 ''Salary Change'' = Some (CNum (Finite (1 / 5)))"
    using Salary_Change_value [OF 7] unfolding Let_def s7 by auto
  moreover obtain g where "generate_emp_samples small_df = Inr g"
    and "frame_cell g 8 ''Salary Change'' = Some (CNum (Finite 0))"
    using Salary_Change_value [OF 8] unfolding Let_def s8 by auto
  moreover obtain h where "generate_emp_samples small_df = Inr h"
    and "frame_cell h 9 ''Salary Change'' = Some (CNum NaN)"
    using Salary_Change_value [OF 9] unfolding Let_def s9 by auto
  moreover obtain k where "generate_emp_samples extreme_df = Inr k"
    and "frame_cell k 1 ''Salary Change'' = Some (CNum (Finite (- 8446744073709551616 / - 5000000000000000000)))"
    using Salary_Change_value [OF 1] unfolding Let_def s1 using w by auto
  ultimately show ?thesis by simp
qed

text \<open>Employee 9 of the sample has exactly one record, with salary zero: \<open>Salary Change\<close>
  is \<open>nan\<close>, not 0.\<close>

theorem Salary_Change_single_record_counterexample:
  "length (filter (\<lambda>r. Emp_ID r = 9) small_df) = 1
   \<and> map_sum id (\<lambda>f. frame_cell f 9 ''Salary Change'') (generate_emp_samples small_df)
       = Inr (Some (CNum NaN))
   \<and> map_sum id (\<lambda>f. frame_cell f 9 ''Salary Change'') (generate_emp_samples small_df)
       \<noteq> Inr (Some (CNum (Finite 0)))"
  by code_simp

section \<open>The training loop\<close>



lemma training_step_empty:
  "filter_data t d = Inr [] \<Longrightarrow> training_step t d = Inl KeyError"
  by (simp add: training_step_def generate_emp_samples_rows get_col_def feature_rows_def unique_def)






text \<open>
  C1. In the first iteration on the sample the label vector \<open>y\<close> is the column \<open>Fired\<close>
  of the aggregated table, and the matrix \<open>X\<close> is that table without \<open>Emp_ID\<close> only:
  the second assignment to \<open>X\<close> drops \<open>Emp_ID\<close> from \<open>emp_df\<close>, not from the table that
  the first assignment made, so \<open>X\<close> keeps the column \<open>Fired\<close>.
\<close>

theorem training_matrix_keeps_Fired:
  "drop 9 (sort (remdups (map MMM_YY (fst (split_train_test_emps Emp_ID sample_full_df [11]))))) = [17075, 17106]
   \<and> map_sum id (\<lambda>p. (cols (fst p), frame_cell (fst p) 6 ''Fired'', snd p))
        (training_step (fst (split_train_test_emps Emp_ID sample_full_df [11])) 17075)
      = Inr ([''Salary Change'', ''Total Business Value All'', ''Overvalue'', ''Work Experience'', ''Fired''],
             Some (CBool True),
             [(1, CBool False), (2, CBool False), (3, CBool False), (4, CBool False), (5, CBool False),
              (6, CBool True), (7, CBool True), (8, CBool True), (9, CBool True), (10, CBool True)])"
  by code_simp

text \<open>
  C3. On the sample, with employee 11 in the test list, \<open>main\<close> runs two iterations;
  the matrix of each has the columns without \<open>Emp_ID\<close> and with \<open>Fired\<close>, the matrix of
  the final \<open>predict\<close> has the columns with \<open>Emp_ID\<close> and without \<open>Fired\<close>.
\<close>

theorem fit_and_predict_columns_differ:
  "map_sum id (\<lambda>p. (map (\<lambda>xy. cols (fst xy)) (fst p), cols (snd p))) (main sample_full_df [11])
     = Inr ([[''Salary Change'', ''Total Business Value All'', ''Overvalue'', ''Work Experience'', ''Fired''],
             [''Salary Change'', ''Total Business Value All'', ''Overvalue'', ''Work Experience'', ''Fired'']],
            [''Emp_ID'', ''Salary Change'', ''Total Business Value All'', ''Overvalue'', ''Work Experience''])"
  by code_simp

end
